theory Spec2Isabelle
  imports Main
begin

section \<open>Python values and strings\<close>

text \<open>
  A Python \<^verbatim>\<open>str\<close> is a sequence of Unicode code points, so a string is a list of
  naturals here: the source's literals contain CJK characters, and \<^verbatim>\<open>str.strip\<close>
  removes Unicode white space, neither of which an 8-bit character type shows. ASCII
  literals are written through \<open>u\<close>.
\<close>

type_synonym ustr = "nat list"

definition u :: "string \<Rightarrow> ustr" where
  "u s = map of_char s"

text \<open>
  The JSON scalars the handlers pass around without looking at their type: the chat id of
  a webhook event is a number, the fields of a dashboard payload are whatever the client
  sent, and a key that is absent reads as \<^verbatim>\<open>None\<close> through \<^verbatim>\<open>dict.get\<close>.
\<close>

datatype pyval = PNone | PInt int | PStr ustr

text \<open>Python truthiness: \<^verbatim>\<open>None\<close>, \<^verbatim>\<open>0\<close> and \<^verbatim>\<open>""\<close> are falsy.\<close>

fun truthy :: "pyval \<Rightarrow> bool" where
  "truthy PNone = False"
| "truthy (PInt i) = (i \<noteq> 0)"
| "truthy (PStr s) = (s \<noteq> [])"

text \<open>\<^verbatim>\<open>str(n)\<close> of an integer: its decimal digits, with a minus sign when negative.\<close>

fun digits :: "nat \<Rightarrow> ustr" where
  "digits n = (if n < 10 then [48 + n] else digits (n div 10) @ [48 + n mod 10])"

declare digits.simps [simp del]

definition str_int :: "int \<Rightarrow> ustr" where
  "str_int i = (if i < 0 then 45 # digits (nat (- i)) else digits (nat i))"

text \<open>\<^verbatim>\<open>s.startswith(sep)\<close> and \<^verbatim>\<open>sep in s\<close>.\<close>

definition startswith :: "ustr \<Rightarrow> ustr \<Rightarrow> bool" where
  "startswith sep s = (take (length sep) s = sep)"

fun contains :: "ustr \<Rightarrow> ustr \<Rightarrow> bool" where
  "contains sep [] = (sep = [])"
| "contains sep (c # cs) = (startswith sep (c # cs) \<or> contains sep cs)"

text \<open>
  \<^verbatim>\<open>s.split(sep)\<close>: the text is scanned from the left, cut at every occurrence of the
  separator, and the scan resumes behind the occurrence. \<open>cur\<close> is the piece collected
  since the last cut. An empty separator raises \<^verbatim>\<open>ValueError\<close> in Python.
\<close>

function split_from :: "ustr \<Rightarrow> ustr \<Rightarrow> ustr \<Rightarrow> ustr list" where
  "split_from sep cur [] = [cur]"
| "split_from sep cur (c # cs) =
     (if sep \<noteq> [] \<and> startswith sep (c # cs)
      then cur # split_from sep [] (drop (length sep) (c # cs))
      else split_from sep (cur @ [c]) cs)"
  by pat_completeness auto
termination
  by (relation "measure (\<lambda>(sep, cur, s). length s)") auto

datatype exn = ValueError | IndexError | KeyError | ChannelError | StoreError | Forbidden

definition split :: "ustr \<Rightarrow> ustr \<Rightarrow> exn + ustr list" where
  "split sep s = (if sep = [] then Inl ValueError else Inr (split_from sep [] s))"

text \<open>
  \<^verbatim>\<open>s.strip()\<close> removes, at both ends, the characters for which \<^verbatim>\<open>str.isspace\<close>
  holds.
\<close>

definition isspace :: "nat \<Rightarrow> bool" where
  "isspace c = (c \<in> {9, 10, 11, 12, 13, 28, 29, 30, 31, 32, 133, 160, 5760,
                      8232, 8233, 8239, 8287, 12288} \<or> (8192 \<le> c \<and> c \<le> 8202))"

definition strip :: "ustr \<Rightarrow> ustr" where
  "strip s = rev (dropWhile isspace (rev (dropWhile isspace s)))"

section \<open>The reply correlator\<close>

definition ID_token :: ustr where
  "ID_token = u ''ID:''"

definition RPAREN :: ustr where
  "RPAREN = u '')''"

text \<open>
  \<^verbatim>\<open>original_text.split('ID:')[1].split(')')[0].strip()\<close>; an index out of range raises
  \<^verbatim>\<open>IndexError\<close>.
\<close>

definition index :: "'a list \<Rightarrow> nat \<Rightarrow> exn + 'a" where
  "index xs i = (if i < length xs then Inr (xs ! i) else Inl IndexError)"

definition extract_target_user_id :: "ustr \<Rightarrow> exn + ustr" where
  "extract_target_user_id original_text =
     (case split ID_token original_text of
        Inl e \<Rightarrow> Inl e
      | Inr parts \<Rightarrow>
          (case index parts 1 of
             Inl e \<Rightarrow> Inl e
           | Inr seg \<Rightarrow>
               (case split RPAREN seg of
                  Inl e \<Rightarrow> Inl e
                | Inr pieces \<Rightarrow>
                    (case index pieces 0 of
                       Inl e \<Rightarrow> Inl e
                     | Inr p \<Rightarrow> Inr (strip p)))))"

section \<open>Configuration, store and environment\<close>

text \<open>
  The module-level constants read from \<^verbatim>\<open>config.json\<close>. \<open>FORWARD_TO_ID\<close> is compared
  with \<^verbatim>\<open>str(chat_id)\<close>, so it is a string; \<open>SECURE_TOKEN\<close> is only compared with
  what a client sent.
\<close>

record config =
  BOT_TOKEN :: ustr
  SECURE_TOKEN :: pyval
  FORWARD_TO_ID :: ustr
  WELCOME_MESSAGE :: ustr
  COOLDOWN_HOURS :: int

text \<open>
  A \<^verbatim>\<open>datetime\<close> is a count of microseconds, a \<^verbatim>\<open>timedelta\<close> a difference of two.
  The range checks of the \<^verbatim>\<open>datetime\<close> module (years 1 to 9999) are outside the model.
\<close>

type_synonym datetime = int

definition timedelta_hours :: "int \<Rightarrow> int" where
  "timedelta_hours h = h * 3600000000"

text \<open>
  \<^verbatim>\<open>format_datetime\<close>: the instant shifted by eight hours and rendered down to the
  second; the rendering itself is kept as the count of whole seconds.
\<close>

definition format_datetime :: "datetime \<Rightarrow> int" where
  "format_datetime v = (v + timedelta_hours 8) div 1000000"

text \<open>The two tables: \<^verbatim>\<open>Message\<close> rows in insertion order, \<^verbatim>\<open>UserAutoReply\<close> rows by their unique \<^verbatim>\<open>user_id\<close>.\<close>

record message =
  m_id :: nat
  m_sender_id :: pyval
  m_sender_name :: ustr
  m_text :: pyval
  m_timestamp :: datetime
  m_media_type :: "ustr option"
  m_media_url :: "ustr option"

datatype level = DEBUG | INFO | WARNING | ERROR

datatype tg_request =
    SendMessage pyval pyval
  | SendPhoto pyval ustr ustr
  | GetFile ustr

datatype audience = AllSessions | OriginatingSession

datatype event =
    New_message pyval ustr pyval int
  | Error string

text \<open>
  What the process does to the outside, in order: a request to the Telegram API with its
  outcome, an event emitted to dashboard sessions, a log line (its fixed part).
\<close>

datatype effect =
    Telegram tg_request bool
  | Emit event audience
  | Log level string

datatype db_write = InsertMessage message | UpsertAutoReply ustr datetime

text \<open>
  What the outside decides: the value of each \<^verbatim>\<open>datetime.utcnow()\<close> call (by the number
  of calls made before it), whether a request to Telegram succeeds, the \<^verbatim>\<open>file_path\<close>
  entry of a \<^verbatim>\<open>getFile\<close> result, and whether a commit succeeds. Queries do not fail.
\<close>

record env =
  clock :: "nat \<Rightarrow> datetime"
  tg_ok :: "tg_request \<Rightarrow> bool"
  file_path_of :: "ustr \<Rightarrow> ustr option"
  commit_ok :: "db_write \<Rightarrow> bool"

record world =
  messages :: "message list"
  auto_replies :: "ustr \<rightharpoonup> datetime option"
  trace :: "effect list"
  clock_reads :: nat

text \<open>A call either returns a value or raises, and changes the world either way.\<close>

type_synonym 'a io = "world \<Rightarrow> (exn + 'a) \<times> world"

definition bind_io :: "'a io \<Rightarrow> ('a \<Rightarrow> 'b io) \<Rightarrow> 'b io" where
  "bind_io m f s = (case m s of (Inl e, s') \<Rightarrow> (Inl e, s') | (Inr x, s') \<Rightarrow> f x s')"

definition lift :: "(world \<Rightarrow> world) \<Rightarrow> unit io" where
  "lift f s = (Inr (), f s)"

definition perform :: "effect \<Rightarrow> world \<Rightarrow> world" where
  "perform e s = s\<lparr>trace := trace s @ [e]\<rparr>"

definition logging :: "level \<Rightarrow> string \<Rightarrow> world \<Rightarrow> world" where
  "logging l msg = perform (Log l msg)"

definition emit :: "event \<Rightarrow> audience \<Rightarrow> world \<Rightarrow> world" where
  "emit ev a = perform (Emit ev a)"

definition utcnow :: "env \<Rightarrow> datetime io" where
  "utcnow en s = (Inr (clock en (clock_reads s)), s\<lparr>clock_reads := Suc (clock_reads s)\<rparr>)"

text \<open>\<^verbatim>\<open>db.session.add(Message(...)); db.session.commit()\<close>: the store assigns the id.\<close>

definition add_message ::
  "env \<Rightarrow> pyval \<Rightarrow> ustr \<Rightarrow> pyval \<Rightarrow> datetime \<Rightarrow> ustr option \<Rightarrow> ustr option \<Rightarrow> message io" where
  "add_message en sid sname txt ts mtype murl s =
     (let row = \<lparr>m_id = Suc (length (messages s)), m_sender_id = sid, m_sender_name = sname,
                 m_text = txt, m_timestamp = ts, m_media_type = mtype, m_media_url = murl\<rparr>
      in if commit_ok en (InsertMessage row)
         then (Inr row, s\<lparr>messages := messages s @ [row]\<rparr>)
         else (Inl StoreError, s))"

section \<open>The outbound channel client\<close>

definition telegram_call :: "env \<Rightarrow> tg_request \<Rightarrow> string \<Rightarrow> unit io" where
  "telegram_call en rq msg s =
     (if tg_ok en rq then (Inr (), perform (Telegram rq True) s)
      else (Inl ChannelError, logging ERROR msg (perform (Telegram rq False) s)))"

definition get_telegram_file_info :: "env \<Rightarrow> ustr \<Rightarrow> (ustr option) io" where
  "get_telegram_file_info en file_id =
     bind_io (telegram_call en (GetFile file_id) ''Error getting file info'')
       (\<lambda>_ s. (Inr (file_path_of en file_id), s))"

definition send_message_to_telegram :: "env \<Rightarrow> pyval \<Rightarrow> pyval \<Rightarrow> unit io" where
  "send_message_to_telegram en chat_id txt =
     telegram_call en (SendMessage chat_id txt) ''Error sending message to Telegram''"

definition send_photo_to_telegram :: "env \<Rightarrow> pyval \<Rightarrow> ustr \<Rightarrow> ustr \<Rightarrow> unit io" where
  "send_photo_to_telegram en chat_id file_id caption =
     telegram_call en (SendPhoto chat_id file_id caption) ''Error sending photo to Telegram''"

section \<open>The auto-reply gate\<close>

definition should_send_auto_reply :: "config \<Rightarrow> env \<Rightarrow> ustr \<Rightarrow> world \<Rightarrow> bool \<times> world" where
  "should_send_auto_reply cfg en user_id s =
     (case auto_replies s user_id of
        None \<Rightarrow> (True, s)
      | Some None \<Rightarrow> (True, s)
      | Some (Some last_auto_reply) \<Rightarrow>
          (let cooldown_time = last_auto_reply + timedelta_hours (COOLDOWN_HOURS cfg)
           in (clock en (clock_reads s) > cooldown_time,
               s\<lparr>clock_reads := Suc (clock_reads s)\<rparr>)))"

definition update_auto_reply_record :: "env \<Rightarrow> ustr \<Rightarrow> unit io" where
  "update_auto_reply_record en user_id =
     bind_io (utcnow en) (\<lambda>now s.
       if commit_ok en (UpsertAutoReply user_id now)
       then (Inr (), s\<lparr>auto_replies := (auto_replies s)(user_id \<mapsto> Some now)\<rparr>)
       else (Inl StoreError, s))"

definition auto_reply_body :: "config \<Rightarrow> env \<Rightarrow> int \<Rightarrow> unit io" where
  "auto_reply_body cfg en chat_id =
     bind_io (send_message_to_telegram en (PInt chat_id) (PStr (WELCOME_MESSAGE cfg))) (\<lambda>_.
     bind_io (update_auto_reply_record en (str_int chat_id)) (\<lambda>_.
     bind_io (utcnow en) (\<lambda>now.
     bind_io (add_message en (PStr (BOT_TOKEN cfg)) (u ''Bot'') (PStr (WELCOME_MESSAGE cfg))
                now None None) (\<lambda>new_message.
     lift (logging INFO ''Sent auto-reply to user'' \<circ>
           emit (New_message (PStr (BOT_TOKEN cfg)) (u ''Bot'') (PStr (WELCOME_MESSAGE cfg))
                   (format_datetime (m_timestamp new_message))) AllSessions)))))"

definition handle_auto_reply :: "config \<Rightarrow> env \<Rightarrow> int \<Rightarrow> world \<Rightarrow> world" where
  "handle_auto_reply cfg en chat_id s =
     (if str_int chat_id \<noteq> FORWARD_TO_ID cfg
      then (case should_send_auto_reply cfg en (str_int chat_id) s of
              (True, s1) \<Rightarrow>
                (case auto_reply_body cfg en chat_id s1 of
                   (Inr _, s2) \<Rightarrow> s2
                 | (Inl e, s2) \<Rightarrow> logging ERROR ''Error sending auto-reply'' s2)
            | (False, s1) \<Rightarrow> s1)
      else s)"

section \<open>Inbound events\<close>

text \<open>
  The part of a Telegram update the webhook reads. A message always carries its chat with
  a numeric id; everything else may be missing. \<open>msg_photo\<close> lists the \<^verbatim>\<open>file_id\<close> of
  each size of a photo.
\<close>

record quoted_message =
  q_caption :: "ustr option"
  q_text :: "ustr option"

record tg_message =
  msg_chat_id :: int
  msg_first_name :: "ustr option"
  msg_chat_type :: "ustr option"
  msg_text :: "ustr option"
  msg_photo :: "ustr list option"
  msg_caption :: "ustr option"
  msg_reply_to :: "quoted_message option"

record update =
  upd_message :: "tg_message option"

text \<open>The \<^verbatim>\<open>send_message\<close> payload of the dashboard, each field read with \<^verbatim>\<open>data.get\<close>.\<close>

record send_payload =
  p_secure_token :: pyval
  p_sender_id :: pyval
  p_text :: pyval

datatype http_response = StatusOk | Unhandled exn

definition get_or :: "'a option \<Rightarrow> 'a \<Rightarrow> 'a" where
  "get_or v d = (case v of None \<Rightarrow> d | Some x \<Rightarrow> x)"

definition last_item :: "'a list \<Rightarrow> 'a io" where
  "last_item xs s = (if xs = [] then (Inl IndexError, s) else (Inr (last xs), s))"

definition subscript :: "'a option \<Rightarrow> 'a io" where
  "subscript v s = (case v of None \<Rightarrow> (Inl KeyError, s) | Some x \<Rightarrow> (Inr x, s))"

section \<open>The message relay orchestrator\<close>

definition forward_text :: "ustr \<Rightarrow> int \<Rightarrow> ustr \<Rightarrow> ustr" where
  "forward_text sender_name chat_id txt =
     [29992, 25143] @ u '' '' @ sender_name @ u '' (ID: '' @ str_int chat_id @ u '') '' @
     [21457, 26469, 28040, 24687] @ u '':'' @ [10] @ txt"

definition forward_caption :: "ustr \<Rightarrow> int \<Rightarrow> ustr \<Rightarrow> ustr" where
  "forward_caption sender_name chat_id caption =
     [29992, 25143] @ u '' '' @ sender_name @ u '' (ID: '' @ str_int chat_id @ u '') '' @
     [21457, 26469, 22270, 29255] @ u '': '' @ caption"

definition file_url_of :: "config \<Rightarrow> ustr \<Rightarrow> ustr" where
  "file_url_of cfg file_path =
     u ''https://api.telegram.org/file/bot'' @ BOT_TOKEN cfg @ u ''/'' @ file_path"

definition photo_text :: "ustr \<Rightarrow> ustr \<Rightarrow> ustr" where
  "photo_text file_url caption =
     u ''['' @ [22270, 29255] @ u ''] '' @ file_url @ u '' '' @ caption"

definition handle_text_message :: "config \<Rightarrow> env \<Rightarrow> int \<Rightarrow> ustr \<Rightarrow> ustr \<Rightarrow> unit io" where
  "handle_text_message cfg en chat_id sender_name txt =
     bind_io (utcnow en) (\<lambda>now.
     bind_io (add_message en (PStr (str_int chat_id)) sender_name (PStr txt) now None None)
       (\<lambda>new_message.
     bind_io (send_message_to_telegram en (PStr (FORWARD_TO_ID cfg))
                (PStr (forward_text sender_name chat_id txt))) (\<lambda>_.
     lift (emit (New_message (PInt chat_id) sender_name (PStr txt)
                   (format_datetime (m_timestamp new_message))) AllSessions))))"

definition photo_message_body :: "config \<Rightarrow> env \<Rightarrow> int \<Rightarrow> ustr \<Rightarrow> ustr \<Rightarrow> ustr \<Rightarrow> unit io" where
  "photo_message_body cfg en chat_id sender_name file_id caption =
     bind_io (get_telegram_file_info en file_id) (\<lambda>file_info.
     bind_io (subscript file_info) (\<lambda>file_path.
     bind_io (send_photo_to_telegram en (PStr (FORWARD_TO_ID cfg)) file_id
                (forward_caption sender_name chat_id caption)) (\<lambda>_.
     bind_io (utcnow en) (\<lambda>now.
     bind_io (add_message en (PStr (str_int chat_id)) sender_name
                (PStr (photo_text (file_url_of cfg file_path) caption)) now
                (Some (u ''photo'')) (Some (file_url_of cfg file_path))) (\<lambda>new_message.
     lift (logging INFO ''Successfully handled photo message from user'' \<circ>
           emit (New_message (PInt chat_id) sender_name
                   (PStr (photo_text (file_url_of cfg file_path) caption))
                   (format_datetime (m_timestamp new_message))) AllSessions))))))"

definition handle_photo_message ::
  "config \<Rightarrow> env \<Rightarrow> int \<Rightarrow> ustr \<Rightarrow> ustr \<Rightarrow> ustr \<Rightarrow> world \<Rightarrow> world" where
  "handle_photo_message cfg en chat_id sender_name file_id caption s =
     (case photo_message_body cfg en chat_id sender_name file_id caption s of
        (Inr _, s') \<Rightarrow> s'
      | (Inl e, s') \<Rightarrow> logging ERROR ''Error handling photo message'' s')"

text \<open>
  \<^verbatim>\<open>reply_to_message.get('caption', '') or reply_to_message.get('text', '')\<close>: the
  caption unless it is missing or empty, else the text, else the empty string.
\<close>

definition original_text_of :: "quoted_message \<Rightarrow> ustr" where
  "original_text_of rtm =
     (if get_or (q_caption rtm) [] \<noteq> [] then get_or (q_caption rtm) []
      else get_or (q_text rtm) [])"

definition reply_photo :: "config \<Rightarrow> env \<Rightarrow> tg_message \<Rightarrow> ustr \<Rightarrow> ustr list \<Rightarrow> unit io" where
  "reply_photo cfg en message target_user_id photo =
     bind_io (last_item photo) (\<lambda>file_id.
     bind_io (get_telegram_file_info en file_id) (\<lambda>file_info.
     bind_io (subscript file_info) (\<lambda>file_path.
     bind_io (send_photo_to_telegram en (PStr target_user_id) file_id
                (get_or (msg_caption message) [])) (\<lambda>_.
     bind_io (utcnow en) (\<lambda>now.
     bind_io (add_message en (PStr (FORWARD_TO_ID cfg)) (u ''You'')
                (PStr (photo_text (file_url_of cfg file_path) (get_or (msg_caption message) [])))
                now (Some (u ''photo'')) (Some (file_url_of cfg file_path))) (\<lambda>new_message.
     lift (emit (New_message (PStr (FORWARD_TO_ID cfg)) (u ''You'')
                   (PStr (photo_text (file_url_of cfg file_path)
                            (get_or (msg_caption message) [])))
                   (format_datetime (m_timestamp new_message))) AllSessions)))))))"

definition reply_text :: "config \<Rightarrow> env \<Rightarrow> ustr \<Rightarrow> ustr \<Rightarrow> unit io" where
  "reply_text cfg en target_user_id txt =
     bind_io (send_message_to_telegram en (PStr target_user_id) (PStr txt)) (\<lambda>_.
     bind_io (utcnow en) (\<lambda>now.
     bind_io (add_message en (PStr (FORWARD_TO_ID cfg)) (u ''You'') (PStr txt) now None None)
       (\<lambda>new_message.
     lift (emit (New_message (PStr (FORWARD_TO_ID cfg)) (u ''You'') (PStr txt)
                   (format_datetime (m_timestamp new_message))) AllSessions))))"

definition reply_body :: "config \<Rightarrow> env \<Rightarrow> tg_message \<Rightarrow> ustr \<Rightarrow> unit io" where
  "reply_body cfg en message original_text =
     bind_io (\<lambda>s. (extract_target_user_id original_text, s)) (\<lambda>target_user_id.
     bind_io (lift (logging INFO ''Identified target user ID'')) (\<lambda>_.
     bind_io (case msg_photo message of
                Some photo \<Rightarrow> reply_photo cfg en message target_user_id photo
              | None \<Rightarrow>
                  (case msg_text message of
                     Some txt \<Rightarrow> reply_text cfg en target_user_id txt
                   | None \<Rightarrow> lift id)) (\<lambda>_.
     lift (logging INFO ''Successfully handled customer service reply to user''))))"

definition handle_customer_service_reply :: "config \<Rightarrow> env \<Rightarrow> tg_message \<Rightarrow> world \<Rightarrow> world" where
  "handle_customer_service_reply cfg en message s =
     (let s0 = logging DEBUG ''Handling customer service reply'' s in
      case msg_reply_to message of
        None \<Rightarrow> logging ERROR ''No reply_to_message found'' s0
      | Some reply_to_message \<Rightarrow>
          if \<not> contains ID_token (original_text_of reply_to_message)
          then logging ERROR ''No user ID found in original message'' s0
          else (case reply_body cfg en message (original_text_of reply_to_message) s0 of
                  (Inr _, s') \<Rightarrow> s'
                | (Inl e, s') \<Rightarrow> logging ERROR ''Error handling customer service reply'' s'))"

text \<open>
  The webhook. An exception that leaves a handler is not caught here: the framework
  answers the request with an error status instead of \<^verbatim>\<open>{"status": "ok"}\<close>.
\<close>

definition telegram_webhook :: "config \<Rightarrow> env \<Rightarrow> update \<Rightarrow> world \<Rightarrow> http_response \<times> world" where
  "telegram_webhook cfg en data s =
     (let s0 = logging DEBUG ''Webhook received data'' s in
      case upd_message data of
        None \<Rightarrow> (StatusOk, s0)
      | Some message \<Rightarrow>
          (let chat_id = msg_chat_id message;
               sender_name = get_or (msg_first_name message) (u ''Unknown'')
           in if str_int chat_id = FORWARD_TO_ID cfg \<and> msg_reply_to message \<noteq> None
              then (StatusOk, handle_customer_service_reply cfg en message s0)
              else if msg_chat_type message = Some (u ''private'')
              then (case msg_text message of
                      Some txt \<Rightarrow>
                        (case handle_text_message cfg en chat_id sender_name txt s0 of
                           (Inl e, s1) \<Rightarrow> (Unhandled e, s1)
                         | (Inr _, s1) \<Rightarrow> (StatusOk, handle_auto_reply cfg en chat_id s1))
                    | None \<Rightarrow>
                        (case msg_photo message of
                           Some photo \<Rightarrow>
                             (case last_item photo s0 of
                                (Inl e, s1) \<Rightarrow> (Unhandled e, s1)
                              | (Inr file_id, s1) \<Rightarrow>
                                  (StatusOk,
                                   handle_auto_reply cfg en chat_id
                                     (handle_photo_message cfg en chat_id sender_name file_id
                                        (get_or (msg_caption message) []) s1)))
                         | None \<Rightarrow> (StatusOk, s0)))
              else (StatusOk, s0)))"

section \<open>The dashboard\<close>

definition send_body :: "env \<Rightarrow> pyval \<Rightarrow> pyval \<Rightarrow> unit io" where
  "send_body en chat_id txt =
     bind_io (send_message_to_telegram en chat_id txt) (\<lambda>_.
     bind_io (utcnow en) (\<lambda>now.
     bind_io (add_message en chat_id (u ''You'') txt now None None) (\<lambda>new_message.
     lift (logging INFO ''Message sent successfully to user'' \<circ>
           emit (New_message chat_id (u ''You'') txt
                   (format_datetime (m_timestamp new_message))) AllSessions))))"

definition handle_send_message :: "config \<Rightarrow> env \<Rightarrow> send_payload \<Rightarrow> world \<Rightarrow> world" where
  "handle_send_message cfg en data s =
     (let s0 = logging DEBUG ''Received data for sending message'' s in
      if p_secure_token data \<noteq> SECURE_TOKEN cfg
      then emit (Error ''Invalid secure_token'') OriginatingSession
             (logging ERROR ''Invalid secure token received'' s0)
      else if \<not> truthy (p_sender_id data) \<or> \<not> truthy (p_text data)
      then emit (Error ''Missing required fields'') OriginatingSession
             (logging WARNING ''Invalid data received for sending message'' s0)
      else (case send_body en (p_sender_id data) (p_text data) s0 of
              (Inr _, s') \<Rightarrow> s'
            | (Inl e, s') \<Rightarrow>
                emit (Error ''Failed to send message'') OriginatingSession
                  (logging ERROR ''Error sending message'' s')))"

text \<open>
  The page load: \<^verbatim>\<open>order_by(Message.timestamp.desc()).limit(5000).all()\<close>, then
  \<^verbatim>\<open>reverse()\<close>. The database leaves the order of rows with equal timestamps open; the
  model keeps them in insertion order before the reversal.
\<close>

definition order_by_timestamp_desc :: "message list \<Rightarrow> message list" where
  "order_by_timestamp_desc ms = sort_key (\<lambda>m. - m_timestamp m) ms"

definition recent_messages :: "nat \<Rightarrow> message list \<Rightarrow> message list" where
  "recent_messages limit ms = rev (take limit (order_by_timestamp_desc ms))"

definition home :: "config \<Rightarrow> pyval \<Rightarrow> world \<Rightarrow> exn + message list" where
  "home cfg token s =
     (if token \<noteq> SECURE_TOKEN cfg then Inl Forbidden
      else Inr (recent_messages 5000 (messages s)))"

section \<open>Reference notions for the statements\<close>

text \<open>
  The text in front of the first occurrence of a separator (the whole text when there is
  none), and the text behind that occurrence.
\<close>

fun before_first :: "ustr \<Rightarrow> ustr \<Rightarrow> ustr" where
  "before_first sep [] = []"
| "before_first sep (c # cs) =
     (if startswith sep (c # cs) then [] else c # before_first sep cs)"

fun after_first :: "ustr \<Rightarrow> ustr \<Rightarrow> ustr" where
  "after_first sep [] = []"
| "after_first sep (c # cs) =
     (if startswith sep (c # cs) then drop (length sep) (c # cs) else after_first sep cs)"

text \<open>The welcome messages sent to a chat so far.\<close>

fun is_welcome :: "config \<Rightarrow> int \<Rightarrow> effect \<Rightarrow> bool" where
  "is_welcome cfg chat_id (Telegram (SendMessage target txt) ok) =
     (target = PInt chat_id \<and> txt = PStr (WELCOME_MESSAGE cfg))"
| "is_welcome cfg chat_id e = False"

definition welcomes :: "config \<Rightarrow> int \<Rightarrow> world \<Rightarrow> effect list" where
  "welcomes cfg chat_id s = filter (is_welcome cfg chat_id) (trace s)"

text \<open>
  An event is quiet for a chat when it sends the chat no welcome message and leaves the
  auto-reply records as they were.
\<close>

definition quiet :: "config \<Rightarrow> int \<Rightarrow> world \<Rightarrow> world \<Rightarrow> bool" where
  "quiet cfg c s s' \<longleftrightarrow> welcomes cfg c s' = welcomes cfg c s \<and> auto_replies s' = auto_replies s"

definition quiet_io :: "config \<Rightarrow> int \<Rightarrow> 'a io \<Rightarrow> bool" where
  "quiet_io cfg c m \<longleftrightarrow> (\<forall>s. quiet cfg c s (snd (m s)))"

subsection \<open>A sample deployment\<close>

definition cfg0 :: config where
  "cfg0 = \<lparr>BOT_TOKEN = u ''42:abc'', SECURE_TOKEN = PStr (u ''s3cret''),
            FORWARD_TO_ID = u ''900'', WELCOME_MESSAGE = u ''Welcome!'', COOLDOWN_HOURS = 24\<rparr>"

definition env_up :: env where
  "env_up = \<lparr>clock = (\<lambda>n. 1000 + int n), tg_ok = (\<lambda>_. True),
              file_path_of = (\<lambda>_. Some (u ''photos/a.jpg'')), commit_ok = (\<lambda>_. True)\<rparr>"

definition env_down :: env where
  "env_down = env_up\<lparr>tg_ok := (\<lambda>_. False)\<rparr>"

definition world0 :: world where
  "world0 = \<lparr>messages = [], auto_replies = Map.empty, trace = [], clock_reads = 0\<rparr>"

definition private_text :: "int \<Rightarrow> ustr \<Rightarrow> ustr \<Rightarrow> tg_message" where
  "private_text chat_id first_name txt =
     \<lparr>msg_chat_id = chat_id, msg_first_name = Some first_name,
      msg_chat_type = Some (u ''private''), msg_text = Some txt, msg_photo = None,
      msg_caption = None, msg_reply_to = None\<rparr>"

definition quoting :: "ustr \<Rightarrow> quoted_message" where
  "quoting txt = \<lparr>q_caption = None, q_text = Some txt\<rparr>"

definition alice_update :: update where
  "alice_update = \<lparr>upd_message = Some (private_text 111 (u ''Alice'') (u ''hi''))\<rparr>"

definition bad_payload :: send_payload where
  "bad_payload = \<lparr>p_secure_token = PStr (u ''guess''), p_sender_id = PStr (u ''111''),
                   p_text = PStr (u ''hello'')\<rparr>"

definition good_payload :: send_payload where
  "good_payload = bad_payload\<lparr>p_secure_token := PStr (u ''s3cret'')\<rparr>"

definition operator_reply :: "ustr \<Rightarrow> ustr \<Rightarrow> tg_message" where
  "operator_reply quoted txt = (private_text 900 (u ''Op'') txt)\<lparr>msg_reply_to := Some (quoting quoted)\<rparr>"

definition spoof_forward :: ustr where
  "spoof_forward = [29992, 25143] @ u '' ID:999) (ID: 111) '' @ [21457, 26469, 28040, 24687] @
     u '':'' @ [10] @ u ''hi''"

definition spoof_update :: update where
  "spoof_update = \<lparr>upd_message = Some (private_text 111 (u ''ID:999)'') (u ''hi''))\<rparr>"

definition spoof_reply :: update where
  "spoof_reply = \<lparr>upd_message = Some (operator_reply spoof_forward (u ''ok''))\<rparr>"

definition alice_row :: "nat \<Rightarrow> datetime \<Rightarrow> message" where
  "alice_row i ts = \<lparr>m_id = i, m_sender_id = PStr (u ''111''), m_sender_name = u ''Alice'',
     m_text = PStr (u ''hi''), m_timestamp = ts, m_media_type = None, m_media_url = None\<rparr>"

definition bot_row :: "config \<Rightarrow> nat \<Rightarrow> datetime \<Rightarrow> message" where
  "bot_row cfg i ts = \<lparr>m_id = i, m_sender_id = PStr (BOT_TOKEN cfg), m_sender_name = u ''Bot'',
     m_text = PStr (WELCOME_MESSAGE cfg), m_timestamp = ts, m_media_type = None,
     m_media_url = None\<rparr>"

definition alice_forward :: ustr where
  "alice_forward = [29992, 25143] @ u '' Alice (ID: 111) '' @ [21457, 26469, 28040, 24687] @
     u '':'' @ [10] @ u ''hi''"

definition row :: "nat \<Rightarrow> datetime \<Rightarrow> message" where
  "row i ts = \<lparr>m_id = i, m_sender_id = PStr (u ''900''), m_sender_name = u ''Op'',
     m_text = PStr (u ''note''), m_timestamp = ts, m_media_type = None, m_media_url = None\<rparr>"

definition env_backstep :: env where
  "env_backstep = env_up\<lparr>clock := (\<lambda>n. 5 - 2 * int n)\<rparr>"

definition operator_note :: update where
  "operator_note = \<lparr>upd_message = Some (private_text 900 (u ''Op'') (u ''note''))\<rparr>"

section \<open>Strings: splitting at the first occurrence\<close>

lemmas io_defs = bind_io_def lift_def perform_def logging_def emit_def utcnow_def
  add_message_def telegram_call_def get_telegram_file_info_def send_message_to_telegram_def
  send_photo_to_telegram_def last_item_def subscript_def

lemma ID_token_eq: "ID_token = [73, 68, 58]"
  by (simp add: ID_token_def u_def)

lemma RPAREN_eq: "RPAREN = [41]"
  by (simp add: RPAREN_def u_def)

lemmas str_evals = u_def ID_token_eq RPAREN_eq startswith_def extract_target_user_id_def
  split_def index_def strip_def isspace_def forward_text_def forward_caption_def
  original_text_of_def get_or_def str_int_def digits.simps

lemma before_first_absent: "\<not> contains sep s \<Longrightarrow> before_first sep s = s"
  by (induction s) auto

lemma split_from_first:
  "sep \<noteq> [] \<Longrightarrow>
   split_from sep cur s =
     (if contains sep s
      then (cur @ before_first sep s) # split_from sep [] (after_first sep s)
      else [cur @ s])"
  by (induction s arbitrary: cur) (auto simp: startswith_def)

lemma split_from_head:
  assumes "sep \<noteq> []"
  shows "\<exists>rest. split_from sep cur s = (cur @ before_first sep s) # rest"
  using split_from_first [OF assms, of cur s] before_first_absent [of sep s]
  by (cases "contains sep s") auto

lemma extract_target_user_id_eq:
  assumes "contains ID_token t"
  shows "extract_target_user_id t =
           Inr (strip (before_first RPAREN (before_first ID_token (after_first ID_token t))))"
proof -
  have ne: "ID_token \<noteq> []" "RPAREN \<noteq> []"
    by (simp_all add: ID_token_eq RPAREN_eq)
  obtain r1 where r1: "split_from ID_token [] (after_first ID_token t) =
      before_first ID_token (after_first ID_token t) # r1"
    using split_from_head [OF ne(1), of "[]"] by auto
  obtain r2 where r2: "split_from RPAREN [] (before_first ID_token (after_first ID_token t)) =
      before_first RPAREN (before_first ID_token (after_first ID_token t)) # r2"
    using split_from_head [OF ne(2), of "[]"] by auto
  show ?thesis
    using assms ne r1 r2
    by (simp add: extract_target_user_id_def split_def index_def split_from_first)
qed

lemma no_start_ID:
  assumes "\<not> contains ID_token (x # a)" and "c \<noteq> 68" and "c \<noteq> 58"
  shows "\<not> startswith ID_token (x # a @ c # r)"
  using assms by (cases a; cases "tl a") (auto simp: ID_token_eq startswith_def)

lemma pass_ID:
  "\<not> contains ID_token a \<Longrightarrow> c \<noteq> 68 \<Longrightarrow> c \<noteq> 58 \<Longrightarrow>
   before_first ID_token (a @ c # r) = a @ before_first ID_token (c # r) \<and>
   after_first ID_token (a @ c # r) = after_first ID_token (c # r) \<and>
   contains ID_token (a @ c # r) = contains ID_token (c # r)"
proof (induction a)
  case Nil
  show ?case by simp
next
  case (Cons x a)
  have "\<not> startswith ID_token (x # a @ c # r)"
    using Cons.prems by (rule no_start_ID)
  moreover have "\<not> contains ID_token a"
    using Cons.prems(1) by simp
  ultimately show ?case
    using Cons.IH Cons.prems(2,3) by simp
qed

lemma pass_RPAREN:
  "41 \<notin> set a \<Longrightarrow> before_first RPAREN (a @ 41 # r) = a"
  by (induction a) (auto simp: RPAREN_eq startswith_def)

lemma contains_hd: "contains sep s \<Longrightarrow> sep \<noteq> [] \<Longrightarrow> hd sep \<in> set s"
  by (induction s) (auto simp: startswith_def neq_Nil_conv)

lemma dropWhile_none: "\<forall>c\<in>set s. \<not> P c \<Longrightarrow> dropWhile P s = s"
  by (cases s) auto

lemma strip_clean: "\<forall>c\<in>set s. \<not> isspace c \<Longrightarrow> strip (32 # s) = s"
  by (simp add: strip_def isspace_def dropWhile_none)

lemma digits_range: "c \<in> set (digits n) \<Longrightarrow> 48 \<le> c \<and> c \<le> 57"
proof (induction n rule: digits.induct)
  case (1 n)
  show ?case
  proof (cases "n < 10")
    case True
    with "1.prems" show ?thesis by (simp add: digits.simps [of n])
  next
    case False
    have "n mod 10 < 10" by simp
    with False "1.prems" "1.IH" show ?thesis
      by (auto simp add: digits.simps [of n])
  qed
qed

lemma str_int_chars: "c \<in> set (str_int i) \<Longrightarrow> c = 45 \<or> (48 \<le> c \<and> c \<le> 57)"
  by (auto simp: str_int_def dest: digits_range split: if_splits)

lemma str_int_plain:
  "\<not> contains ID_token (str_int i)" "41 \<notin> set (str_int i)" "\<forall>c\<in>set (str_int i). \<not> isspace c"
proof -
  show "\<not> contains ID_token (str_int i)"
    using contains_hd [of ID_token "str_int i"] str_int_chars [of 73 i]
    by (auto simp: ID_token_eq)
  show "41 \<notin> set (str_int i)"
    using str_int_chars [of 41 i] by auto
  show "\<forall>c\<in>set (str_int i). \<not> isspace c"
  proof
    fix c assume "c \<in> set (str_int i)"
    then have "c = 45 \<or> (48 \<le> c \<and> c \<le> 57)" by (rule str_int_chars)
    then show "\<not> isspace c" by (auto simp: isspace_def)
  qed
qed

lemma marker_roundtrip:
  assumes "\<not> contains ID_token pre" and "\<not> contains ID_token cid" and "41 \<notin> set cid"
    and "\<forall>c\<in>set cid. \<not> isspace c"
  shows "contains ID_token (pre @ u '' (ID: '' @ cid @ u '') '' @ post)"
    and "extract_target_user_id (pre @ u '' (ID: '' @ cid @ u '') '' @ post) = Inr cid"
proof -
  let ?t = "pre @ u '' (ID: '' @ cid @ u '') '' @ post"
  have t: "?t = pre @ 32 # (40 # ID_token @ 32 # cid @ 41 # 32 # post)"
    by (simp add: u_def ID_token_eq)
  have c: "contains ID_token ?t"
    unfolding t using pass_ID [OF assms(1), of 32] by (simp add: ID_token_eq startswith_def)
  have a: "after_first ID_token ?t = 32 # cid @ 41 # 32 # post"
    unfolding t using pass_ID [OF assms(1), of 32] by (simp add: ID_token_eq startswith_def)
  have "\<not> contains ID_token (32 # cid)"
    using assms(2) by (simp add: ID_token_eq startswith_def)
  from pass_ID [OF this, of 41 "32 # post"]
  have b: "before_first ID_token (32 # cid @ 41 # 32 # post) =
             (32 # cid) @ 41 # before_first ID_token (32 # post)"
    by (simp add: ID_token_eq startswith_def)
  have p: "before_first RPAREN ((32 # cid) @ 41 # before_first ID_token (32 # post)) = 32 # cid"
    by (rule pass_RPAREN) (use assms(3) in simp)
  show "contains ID_token ?t" by (rule c)
  show "extract_target_user_id ?t = Inr cid"
    using extract_target_user_id_eq [OF c] a b p strip_clean [OF assms(4)] by simp
qed


lemma forward_text_shape:
  "forward_text sender_name chat_id txt =
     ([29992, 25143, 32] @ sender_name) @ u '' (ID: '' @ str_int chat_id @ u '') '' @
     ([21457, 26469, 28040, 24687, 58, 10] @ txt)"
  by (simp add: forward_text_def u_def)

lemma forward_caption_shape:
  "forward_caption sender_name chat_id caption =
     ([29992, 25143, 32] @ sender_name) @ u '' (ID: '' @ str_int chat_id @ u '') '' @
     ([21457, 26469, 22270, 29255, 58, 32] @ caption)"
  by (simp add: forward_caption_def u_def)

lemma prefix_no_ID:
  "\<not> contains ID_token sender_name \<Longrightarrow> \<not> contains ID_token ([29992, 25143, 32] @ sender_name)"
  by (simp add: ID_token_eq startswith_def)

lemma contains_RPAREN: "contains RPAREN s \<longleftrightarrow> 41 \<in> set s"
  by (induction s) (auto simp: RPAREN_eq startswith_def)

lemma set_before_first: "set (before_first sep s) \<subseteq> set s"
  by (induction s) auto

lemma unterminated_segment:
  assumes "\<not> contains RPAREN s"
  shows "before_first RPAREN (before_first sep s) = before_first sep s"
proof (rule before_first_absent)
  show "\<not> contains RPAREN (before_first sep s)"
    using assms set_before_first [of sep s] by (auto simp: contains_RPAREN)
qed

section \<open>The relay of an operator reply\<close>

lemma reply_relays_text:
  assumes "msg_reply_to m = Some q"
    and "contains ID_token (original_text_of q)"
    and "extract_target_user_id (original_text_of q) = Inr target"
    and "msg_photo m = None" and "msg_text m = Some txt"
  shows "Telegram (SendMessage (PStr target) (PStr txt))
           (tg_ok en (SendMessage (PStr target) (PStr txt)))
         \<in> set (trace (handle_customer_service_reply cfg en m s))"
  using assms
  by (simp add: handle_customer_service_reply_def reply_body_def reply_text_def io_defs Let_def)

lemma reply_relays_photo:
  assumes "msg_reply_to m = Some q"
    and "contains ID_token (original_text_of q)"
    and "extract_target_user_id (original_text_of q) = Inr target"
    and "msg_photo m = Some photo" and "photo \<noteq> []"
    and "tg_ok en (GetFile (last photo))" and "file_path_of en (last photo) = Some fp"
  shows "Telegram (SendPhoto (PStr target) (last photo) (get_or (msg_caption m) []))
           (tg_ok en (SendPhoto (PStr target) (last photo) (get_or (msg_caption m) [])))
         \<in> set (trace (handle_customer_service_reply cfg en m s))"
  using assms
  by (simp add: handle_customer_service_reply_def reply_body_def reply_photo_def io_defs Let_def)

text \<open>
  Where the sender's display name does not contain \<open>ID:\<close>, the correlator recovers
  \<open>str(chat_id)\<close> from the forwarded text and from the forwarded caption.
\<close>

lemma roundtrip_plain_name:
  assumes "\<not> contains ID_token sender_name"
  shows "contains ID_token (forward_text sender_name chat_id txt) \<and>
         extract_target_user_id
           (original_text_of \<lparr>q_caption = None, q_text = Some (forward_text sender_name chat_id txt)\<rparr>)
           = Inr (str_int chat_id) \<and>
         contains ID_token (forward_caption sender_name chat_id caption) \<and>
         extract_target_user_id
           (original_text_of
              \<lparr>q_caption = Some (forward_caption sender_name chat_id caption), q_text = None\<rparr>)
           = Inr (str_int chat_id)"
proof -
  note pre = prefix_no_ID [OF assms]
  have ne: "forward_caption sender_name chat_id caption \<noteq> []"
    by (simp add: forward_caption_def)
  show ?thesis
    using marker_roundtrip [OF pre str_int_plain, of chat_id] ne
    by (simp add: forward_text_shape forward_caption_shape original_text_of_def get_or_def)
qed

section \<open>Properties\<close>

text \<open>
  C10. A quoted text that contains \<open>ID:\<close> with no \<open>)\<close> behind it is correlated: the target
  is the text behind the first \<open>ID:\<close>, up to the next \<open>ID:\<close> if there is one, trimmed; it is
  the whole remainder when no second \<open>ID:\<close> follows. A text reply is then sent to that
  target, and so is a photo reply once its file information has been fetched.
\<close>

theorem correlator_unterminated:
  assumes "msg_reply_to m = Some q"
    and "contains ID_token (original_text_of q)"
    and "\<not> contains RPAREN (after_first ID_token (original_text_of q))"
  shows "extract_target_user_id (original_text_of q) =
           Inr (strip (before_first ID_token (after_first ID_token (original_text_of q)))) \<and>
         (\<not> contains ID_token (after_first ID_token (original_text_of q)) \<longrightarrow>
            extract_target_user_id (original_text_of q) =
              Inr (strip (after_first ID_token (original_text_of q)))) \<and>
         (msg_photo m = None \<and> msg_text m = Some txt \<longrightarrow>
            (let target = strip (before_first ID_token (after_first ID_token (original_text_of q)))
             in Telegram (SendMessage (PStr target) (PStr txt))
                  (tg_ok en (SendMessage (PStr target) (PStr txt)))
                \<in> set (trace (handle_customer_service_reply cfg en m s)))) \<and>
         (msg_photo m = Some photo \<and> photo \<noteq> [] \<and> tg_ok en (GetFile (last photo)) \<and>
          file_path_of en (last photo) = Some fp \<longrightarrow>
            (let target = strip (before_first ID_token (after_first ID_token (original_text_of q)))
             in Telegram (SendPhoto (PStr target) (last photo) (get_or (msg_caption m) []))
                  (tg_ok en (SendPhoto (PStr target) (last photo) (get_or (msg_caption m) [])))
                \<in> set (trace (handle_customer_service_reply cfg en m s))))"
proof -
  let ?t = "original_text_of q"
  have e: "extract_target_user_id ?t = Inr (strip (before_first ID_token (after_first ID_token ?t)))"
    using extract_target_user_id_eq [OF assms(2)] unterminated_segment [OF assms(3)] by simp
  have r: "\<not> contains ID_token (after_first ID_token ?t) \<Longrightarrow>
           extract_target_user_id ?t = Inr (strip (after_first ID_token ?t))"
    using e by (simp add: before_first_absent)
  show ?thesis
    using e r reply_relays_text [OF assms(1,2) e] reply_relays_photo [OF assms(1,2) e]
    by (simp add: Let_def)
qed

theorem correlator_unterminated_witness:
  "msg_reply_to ((private_text 900 (u ''Op'') (u ''hello''))\<lparr>msg_reply_to := Some (quoting (u ''ID: 777''))\<rparr>)
     = Some (quoting (u ''ID: 777'')) \<and>
   contains ID_token (original_text_of (quoting (u ''ID: 777''))) \<and>
   \<not> contains RPAREN (after_first ID_token (original_text_of (quoting (u ''ID: 777'')))) \<and>
   extract_target_user_id (original_text_of (quoting (u ''ID: 777''))) = Inr (u ''777'') \<and>
   Telegram (SendMessage (PStr (u ''777'')) (PStr (u ''hello''))) True
     \<in> set (trace (handle_customer_service_reply cfg0 env_up
          ((private_text 900 (u ''Op'') (u ''hello''))\<lparr>msg_reply_to := Some (quoting (u ''ID: 777''))\<rparr>)
          world0))"
proof -
  let ?q = "quoting (u ''ID: 777'')"
  let ?m = "(private_text 900 (u ''Op'') (u ''hello''))\<lparr>msg_reply_to := Some ?q\<rparr>"
  have h1: "msg_reply_to ?m = Some ?q" by simp
  have h2: "contains ID_token (original_text_of ?q)"
    by (simp add: quoting_def str_evals)
  have h3: "\<not> contains RPAREN (after_first ID_token (original_text_of ?q))"
    by (simp add: quoting_def str_evals)
  have v: "strip (before_first ID_token (after_first ID_token (original_text_of ?q))) = u ''777''"
    by (simp add: quoting_def str_evals)
  have p: "msg_photo ?m = None \<and> msg_text ?m = Some (u ''hello'')"
    by (simp add: private_text_def)
  have k: "tg_ok env_up (SendMessage (PStr (u ''777'')) (PStr (u ''hello'')))"
    by (simp add: env_up_def)
  show ?thesis
    using correlator_unterminated [OF h1 h2 h3, of "u ''hello''" env_up cfg0 world0] h2 h3 v p k
    by (simp add: Let_def)
qed

text \<open>
  The quoted text \<open>ID: 12 ID: 34\<close> has no \<open>)\<close>; the remainder behind the first \<open>ID:\<close> is
  \<open>12 ID: 34\<close>, the target extracted is \<open>12\<close>.
\<close>

theorem correlator_unterminated_counterexample:
  "contains ID_token (u ''ID: 12 ID: 34'') \<and>
   \<not> contains RPAREN (after_first ID_token (u ''ID: 12 ID: 34'')) \<and>
   strip (after_first ID_token (u ''ID: 12 ID: 34'')) = u ''12 ID: 34'' \<and>
   extract_target_user_id (u ''ID: 12 ID: 34'') = Inr (u ''12'')"
  by (simp add: str_evals)


text \<open>
  C8. A dashboard payload with a wrong \<open>secure_token\<close>: the handler logs, emits one
  \<open>error\<close> event to the originating session and does nothing else; the store is untouched,
  nothing is broadcast and no request goes to Telegram.
\<close>

theorem dashboard_wrong_token:
  assumes "p_secure_token data \<noteq> SECURE_TOKEN cfg"
  shows "handle_send_message cfg en data s =
           s\<lparr>trace := trace s @
                [Log DEBUG ''Received data for sending message'',
                 Log ERROR ''Invalid secure token received'',
                 Emit (Error ''Invalid secure_token'') OriginatingSession]\<rparr>"
  using assms by (simp add: handle_send_message_def io_defs)

theorem dashboard_wrong_token_witness:
  "p_secure_token bad_payload \<noteq> SECURE_TOKEN cfg0 \<and>
   handle_send_message cfg0 env_up bad_payload world0 =
     world0\<lparr>trace :=
       [Log DEBUG ''Received data for sending message'',
        Log ERROR ''Invalid secure token received'',
        Emit (Error ''Invalid secure_token'') OriginatingSession]\<rparr>"
proof -
  have h: "p_secure_token bad_payload \<noteq> SECURE_TOKEN cfg0"
    by (simp add: bad_payload_def cfg0_def u_def)
  show ?thesis
    using h dashboard_wrong_token [OF h, of env_up world0] by (simp add: world0_def)
qed

text \<open>
  C9. A validated dashboard payload whose send to Telegram fails: the failed request and
  the log lines are all that happens besides one \<open>Failed to send message\<close> error event to
  the originating session; the store is untouched and nothing is broadcast.
\<close>

theorem dashboard_send_failure:
  assumes "p_secure_token data = SECURE_TOKEN cfg"
    and "truthy (p_sender_id data)" and "truthy (p_text data)"
    and "\<not> tg_ok en (SendMessage (p_sender_id data) (p_text data))"
  shows "handle_send_message cfg en data s =
           s\<lparr>trace := trace s @
                [Log DEBUG ''Received data for sending message'',
                 Telegram (SendMessage (p_sender_id data) (p_text data)) False,
                 Log ERROR ''Error sending message to Telegram'',
                 Log ERROR ''Error sending message'',
                 Emit (Error ''Failed to send message'') OriginatingSession]\<rparr>"
  using assms by (simp add: handle_send_message_def send_body_def io_defs)

theorem dashboard_send_failure_witness:
  "p_secure_token good_payload = SECURE_TOKEN cfg0 \<and>
   truthy (p_sender_id good_payload) \<and> truthy (p_text good_payload) \<and>
   \<not> tg_ok env_down (SendMessage (p_sender_id good_payload) (p_text good_payload)) \<and>
   messages (handle_send_message cfg0 env_down good_payload world0) = [] \<and>
   trace (handle_send_message cfg0 env_down good_payload world0) =
     [Log DEBUG ''Received data for sending message'',
      Telegram (SendMessage (PStr (u ''111'')) (PStr (u ''hello''))) False,
      Log ERROR ''Error sending message to Telegram'',
      Log ERROR ''Error sending message'',
      Emit (Error ''Failed to send message'') OriginatingSession]"
proof -
  have h1: "p_secure_token good_payload = SECURE_TOKEN cfg0"
    by (simp add: good_payload_def bad_payload_def cfg0_def)
  have h2: "truthy (p_sender_id good_payload)" and h3: "truthy (p_text good_payload)"
    by (simp_all add: good_payload_def bad_payload_def u_def)
  have h4: "\<not> tg_ok env_down (SendMessage (p_sender_id good_payload) (p_text good_payload))"
    by (simp add: env_down_def env_up_def)
  show ?thesis
    using h1 h2 h3 h4 dashboard_send_failure [OF h1 h2 h3 h4, of world0]
    by (simp add: world0_def good_payload_def bad_payload_def)
qed

text \<open>
  C3. An operator reply whose quoted caption or text lacks \<open>ID:\<close>: the webhook answers
  with its acknowledgement, and all that happens is three log lines, the last being the
  error; no request goes to Telegram, nothing is stored, nothing is emitted.
\<close>

theorem reply_without_marker:
  assumes "upd_message data = Some m"
    and "str_int (msg_chat_id m) = FORWARD_TO_ID cfg"
    and "msg_reply_to m = Some q"
    and "\<not> contains ID_token (original_text_of q)"
  shows "telegram_webhook cfg en data s =
           (StatusOk,
            s\<lparr>trace := trace s @
                [Log DEBUG ''Webhook received data'',
                 Log DEBUG ''Handling customer service reply'',
                 Log ERROR ''No user ID found in original message'']\<rparr>)"
  using assms by (simp add: telegram_webhook_def handle_customer_service_reply_def io_defs)

theorem reply_without_marker_witness:
  "upd_message \<lparr>upd_message = Some (operator_reply (u ''hello there'') (u ''hi''))\<rparr>
     = Some (operator_reply (u ''hello there'') (u ''hi'')) \<and>
   str_int (msg_chat_id (operator_reply (u ''hello there'') (u ''hi''))) = FORWARD_TO_ID cfg0 \<and>
   msg_reply_to (operator_reply (u ''hello there'') (u ''hi'')) = Some (quoting (u ''hello there'')) \<and>
   \<not> contains ID_token (original_text_of (quoting (u ''hello there''))) \<and>
   telegram_webhook cfg0 env_up
     \<lparr>upd_message = Some (operator_reply (u ''hello there'') (u ''hi''))\<rparr> world0 =
     (StatusOk,
      world0\<lparr>trace :=
        [Log DEBUG ''Webhook received data'',
         Log DEBUG ''Handling customer service reply'',
         Log ERROR ''No user ID found in original message'']\<rparr>)"
proof -
  let ?m = "operator_reply (u ''hello there'') (u ''hi'')"
  have h1: "upd_message \<lparr>upd_message = Some ?m\<rparr> = Some ?m" by simp
  have h2: "str_int (msg_chat_id ?m) = FORWARD_TO_ID cfg0"
    by (simp add: operator_reply_def private_text_def cfg0_def str_evals)
  have h3: "msg_reply_to ?m = Some (quoting (u ''hello there''))"
    by (simp add: operator_reply_def)
  have h4: "\<not> contains ID_token (original_text_of (quoting (u ''hello there'')))"
    by (simp add: quoting_def str_evals)
  show ?thesis
    using h1 h2 h3 h4 reply_without_marker [OF h1 h2 h3 h4, of env_up world0]
    by (simp add: world0_def)
qed

text \<open>
  C4. The gate fires exactly when the user has no record, or the record has no time of
  last reply, or the clock reads later than that time plus the cooldown. After a
  successful \<open>update_auto_reply_record\<close> at time \<open>t\<close>, the gate fires at no instant up to
  \<open>t\<close> plus the cooldown and at every instant after it.
\<close>

theorem gate_decision:
  "(fst (should_send_auto_reply cfg en user_id s) \<longleftrightarrow>
      auto_replies s user_id = None \<or> auto_replies s user_id = Some None \<or>
      (\<exists>t. auto_replies s user_id = Some (Some t) \<and>
           clock en (clock_reads s) > t + timedelta_hours (COOLDOWN_HOURS cfg))) \<and>
   (update_auto_reply_record en user_id s = (Inr (), s1) \<longrightarrow>
      (fst (should_send_auto_reply cfg en' user_id s1) \<longleftrightarrow>
         clock en' (clock_reads s1) >
           clock en (clock_reads s) + timedelta_hours (COOLDOWN_HOURS cfg)))"
  by (auto simp add: should_send_auto_reply_def update_auto_reply_record_def io_defs
      split: option.splits if_splits)

theorem gate_decision_witness:
  "update_auto_reply_record env_up (u ''111'') world0 =
     (Inr (), world0\<lparr>auto_replies := [u ''111'' \<mapsto> Some 1000], clock_reads := 1\<rparr>) \<and>
   fst (should_send_auto_reply cfg0 env_up (u ''111'') world0) \<and>
   \<not> fst (should_send_auto_reply cfg0 (env_up\<lparr>clock := (\<lambda>n. 1000 + 86400000000)\<rparr>) (u ''111'')
          (world0\<lparr>auto_replies := [u ''111'' \<mapsto> Some 1000], clock_reads := 1\<rparr>)) \<and>
   fst (should_send_auto_reply cfg0 (env_up\<lparr>clock := (\<lambda>n. 1001 + 86400000000)\<rparr>) (u ''111'')
          (world0\<lparr>auto_replies := [u ''111'' \<mapsto> Some 1000], clock_reads := 1\<rparr>))"
proof -
  let ?s1 = "world0\<lparr>auto_replies := [u ''111'' \<mapsto> Some 1000], clock_reads := 1\<rparr>"
  have h: "update_auto_reply_record env_up (u ''111'') world0 = (Inr (), ?s1)"
    by (simp add: update_auto_reply_record_def io_defs env_up_def world0_def)
  have n: "auto_replies world0 (u ''111'') = None"
    by (simp add: world0_def)
  show ?thesis
    using h n
      gate_decision [of cfg0 env_up "u ''111''" world0 "?s1" "env_up\<lparr>clock := (\<lambda>n. 1000 + 86400000000)\<rparr>"]
      gate_decision [of cfg0 env_up "u ''111''" world0 "?s1" "env_up\<lparr>clock := (\<lambda>n. 1001 + 86400000000)\<rparr>"]
    by (simp add: cfg0_def env_up_def world0_def timedelta_hours_def)
qed

section \<open>Events that leave a chat alone\<close>

lemma quiet_refl: "quiet cfg c s s"
  by (simp add: quiet_def)

lemma quiet_trans: "quiet cfg c s s1 \<Longrightarrow> quiet cfg c s1 s2 \<Longrightarrow> quiet cfg c s s2"
  by (simp add: quiet_def)

lemma quiet_perform: "\<not> is_welcome cfg c e \<Longrightarrow> quiet cfg c s (perform e s)"
  by (simp add: quiet_def perform_def welcomes_def)

lemma quiet_logging: "quiet cfg c s (logging l msg s)"
  by (simp add: logging_def quiet_perform)

lemma quiet_emit: "quiet cfg c s (emit ev a s)"
  by (simp add: emit_def quiet_perform)

lemma quiet_io_bind:
  assumes "quiet_io cfg c m" and "\<And>x. quiet_io cfg c (f x)"
  shows "quiet_io cfg c (bind_io m f)"
proof (unfold quiet_io_def, rule allI)
  fix s
  obtain r s1 where m: "m s = (r, s1)" by (cases "m s")
  have q1: "quiet cfg c s s1"
    using assms(1) m by (auto simp: quiet_io_def dest: spec [of _ s])
  show "quiet cfg c s (snd (bind_io m f s))"
  proof (cases r)
    case (Inl e)
    with m q1 show ?thesis by (simp add: bind_io_def)
  next
    case (Inr x)
    have "quiet cfg c s1 (snd (f x s1))"
      using assms(2) [of x] by (simp add: quiet_io_def)
    with m q1 Inr show ?thesis
      by (auto simp: bind_io_def intro: quiet_trans)
  qed
qed

lemma quiet_io_lift: "(\<And>s. quiet cfg c s (f s)) \<Longrightarrow> quiet_io cfg c (lift f)"
  by (simp add: quiet_io_def lift_def)

lemma quiet_io_pure: "quiet_io cfg c (\<lambda>s. (r, s))"
  by (simp add: quiet_io_def quiet_refl)

lemma quiet_io_utcnow: "quiet_io cfg c (utcnow en)"
  by (simp add: quiet_io_def utcnow_def quiet_def welcomes_def)

lemma quiet_io_add_message: "quiet_io cfg c (add_message en sid sname txt ts mt mu)"
  by (simp add: quiet_io_def add_message_def quiet_def welcomes_def Let_def)

lemma quiet_io_telegram_call:
  "\<not> is_welcome cfg c (Telegram rq True) \<Longrightarrow> quiet_io cfg c (telegram_call en rq msg)"
  by (cases rq) (auto simp add: quiet_io_def telegram_call_def quiet_def welcomes_def perform_def logging_def)

lemma quiet_io_last_item: "quiet_io cfg c (last_item xs)"
  by (simp add: quiet_io_def last_item_def quiet_refl)

lemma quiet_io_subscript: "quiet_io cfg c (subscript v)"
  by (cases v) (simp_all add: quiet_io_def subscript_def quiet_refl)

lemma quiet_comp: "(\<And>s. quiet cfg c s (f s)) \<Longrightarrow> (\<And>s. quiet cfg c s (g s)) \<Longrightarrow> quiet cfg c s ((f \<circ> g) s)"
  by (auto intro: quiet_trans)

lemmas quiet_intros = quiet_io_bind quiet_io_lift quiet_io_pure quiet_io_utcnow
  quiet_io_add_message quiet_io_telegram_call quiet_io_last_item quiet_io_subscript
  quiet_comp quiet_logging quiet_emit quiet_refl

lemma quiet_io_text: "quiet_io cfg c (handle_text_message cfg en chat_id sender_name txt)"
  unfolding handle_text_message_def send_message_to_telegram_def
  by (intro quiet_intros) simp

lemma quiet_io_photo_body:
  "quiet_io cfg c (photo_message_body cfg en chat_id sender_name file_id caption)"
  unfolding photo_message_body_def send_photo_to_telegram_def get_telegram_file_info_def
  by (intro quiet_intros) simp_all

lemma quiet_io_reply_body: "quiet_io cfg c (reply_body cfg en m t)"
  unfolding reply_body_def reply_text_def reply_photo_def send_photo_to_telegram_def
    send_message_to_telegram_def get_telegram_file_info_def
  by (cases "msg_photo m"; cases "msg_text m") (simp_all, (intro quiet_intros; simp)+)

lemma quiet_try:
  assumes "quiet_io cfg c body"
  shows "quiet cfg c s (case body s of (Inr x, s') \<Rightarrow> s' | (Inl e, s') \<Rightarrow> logging l msg s')"
proof -
  obtain r s1 where b: "body s = (r, s1)" by (cases "body s")
  have "quiet cfg c s s1"
    using assms b by (auto simp: quiet_io_def dest: spec [of _ s])
  with b show ?thesis
    by (cases r) (auto intro: quiet_trans quiet_logging)
qed

lemma quiet_photo: "quiet cfg c s (handle_photo_message cfg en chat_id sender_name file_id caption s)"
  unfolding handle_photo_message_def by (rule quiet_try [OF quiet_io_photo_body])

lemma quiet_reply: "quiet cfg c s (handle_customer_service_reply cfg en m s)"
proof -
  have 0: "quiet cfg c s (logging DEBUG ''Handling customer service reply'' s)"
    by (rule quiet_logging)
  show ?thesis
    unfolding handle_customer_service_reply_def Let_def
    by (auto split: option.splits
        intro: quiet_trans [OF 0] quiet_logging quiet_try [OF quiet_io_reply_body])
qed

lemma snd_case_io:
  assumes "\<And>s1. h s1 = s1"
  shows "snd (case p of (Inl e, s1) \<Rightarrow> (f e, s1) | (Inr x, s1) \<Rightarrow> (g x, h s1)) = snd p"
  using assms by (auto split: prod.splits sum.splits)

lemma quiet_webhook:
  assumes "upd_message data = Some m" and "str_int (msg_chat_id m) = FORWARD_TO_ID cfg"
  shows "quiet cfg c s (snd (telegram_webhook cfg en data s))"
proof -
  let ?s0 = "logging DEBUG ''Webhook received data'' s"
  have a: "\<And>s'. handle_auto_reply cfg en (msg_chat_id m) s' = s'"
    using assms(2) by (simp add: handle_auto_reply_def)
  have 0: "quiet cfg c s ?s0" by (rule quiet_logging)
  have t: "\<And>n txt. quiet cfg c s (snd (handle_text_message cfg en (msg_chat_id m) n txt ?s0))"
    using quiet_io_text [where cfg = cfg and c = c and en = en] 0 by (auto simp: quiet_io_def intro: quiet_trans)
  have r: "quiet cfg c s (handle_customer_service_reply cfg en m ?s0)"
    by (rule quiet_trans [OF 0 quiet_reply])
  have p: "\<And>n f cap. quiet cfg c s (handle_photo_message cfg en (msg_chat_id m) n f cap ?s0)"
    by (rule quiet_trans [OF 0 quiet_photo])
  show ?thesis
    using assms 0 t r p
    by (simp add: telegram_webhook_def Let_def last_item_def a
          snd_case_io [where h = "handle_auto_reply cfg en (msg_chat_id m)", OF a]
        split: option.splits)
qed

section \<open>A private text of a user\<close>

lemma str_int_111: "str_int 111 = u ''111''"
  by (simp add: str_evals)

lemma alice_forward_eq: "forward_text (u ''Alice'') 111 (u ''hi'') = alice_forward"
  by (simp add: forward_text_def alice_forward_def str_int_111) (simp add: u_def)

lemma alice_text_step:
  assumes "\<forall>rq. tg_ok en rq" and "\<forall>w. commit_ok en w"
  shows "handle_text_message cfg en 111 (u ''Alice'') (u ''hi'') s =
           (Inr (),
            s\<lparr>messages := messages s @ [alice_row (Suc (length (messages s))) (clock en (clock_reads s))],
              trace := trace s @
                [Telegram (SendMessage (PStr (FORWARD_TO_ID cfg)) (PStr alice_forward)) True,
                 Emit (New_message (PInt 111) (u ''Alice'') (PStr (u ''hi''))
                        (format_datetime (clock en (clock_reads s)))) AllSessions],
              clock_reads := Suc (clock_reads s)\<rparr>)"
  using assms
  by (simp add: handle_text_message_def io_defs Let_def alice_row_def str_int_111 alice_forward_eq)

lemma new_user_welcome:
  assumes "\<forall>rq. tg_ok en rq" and "\<forall>w. commit_ok en w"
    and "str_int chat_id \<noteq> FORWARD_TO_ID cfg" and "auto_replies s (str_int chat_id) = None"
  shows "handle_auto_reply cfg en chat_id s =
           s\<lparr>messages := messages s @
                [bot_row cfg (Suc (length (messages s))) (clock en (Suc (clock_reads s)))],
              auto_replies := (auto_replies s)(str_int chat_id \<mapsto> Some (clock en (clock_reads s))),
              trace := trace s @
                [Telegram (SendMessage (PInt chat_id) (PStr (WELCOME_MESSAGE cfg))) True,
                 Emit (New_message (PStr (BOT_TOKEN cfg)) (u ''Bot'') (PStr (WELCOME_MESSAGE cfg))
                        (format_datetime (clock en (Suc (clock_reads s))))) AllSessions,
                 Log INFO ''Sent auto-reply to user''],
              clock_reads := Suc (Suc (clock_reads s))\<rparr>"
  using assms
  by (simp add: handle_auto_reply_def should_send_auto_reply_def auto_reply_body_def
        update_auto_reply_record_def io_defs Let_def bot_row_def)

lemma auto_reply_grows:
  assumes "\<forall>rq. tg_ok en rq" and "\<forall>w. commit_ok en w"
  shows "\<exists>ms tr. messages (handle_auto_reply cfg en c s1) = messages s1 @ ms \<and>
                 trace (handle_auto_reply cfg en c s1) = trace s1 @ tr"
  using assms
  by (auto simp add: handle_auto_reply_def should_send_auto_reply_def auto_reply_body_def
        update_auto_reply_record_def io_defs Let_def split: option.splits bool.splits)

section \<open>The page load\<close>

lemma insort_desc_last:
  "\<forall>y\<in>set ys. f y < f x \<Longrightarrow> insort_key f x ys = ys @ [x]"
  by (induction ys) auto

lemma order_by_timestamp_desc_rev:
  "sorted_wrt (<) (map m_timestamp ms) \<Longrightarrow> order_by_timestamp_desc ms = rev ms"
  unfolding order_by_timestamp_desc_def
proof (induction ms)
  case Nil
  show ?case by simp
next
  case (Cons m ms)
  have "\<forall>y\<in>set (rev ms). - m_timestamp y < - m_timestamp m"
    using Cons.prems by auto
  then have "insort_key (\<lambda>m. - m_timestamp m) m (rev ms) = rev ms @ [m]"
    by (rule insort_desc_last)
  with Cons show ?case by simp
qed

section \<open>Properties of the orchestrator\<close>

text \<open>
  C5. An event whose chat id is the operator's: the auto-reply step does nothing at all,
  and over the whole webhook call no welcome message is sent to that chat id and no
  auto-reply record is written, whatever the event's shape and whatever the gate would say.
\<close>

theorem operator_never_welcomed:
  assumes "upd_message data = Some m" and "str_int (msg_chat_id m) = FORWARD_TO_ID cfg"
  shows "handle_auto_reply cfg en (msg_chat_id m) s' = s' \<and>
         welcomes cfg (msg_chat_id m) (snd (telegram_webhook cfg en data s)) =
           welcomes cfg (msg_chat_id m) s \<and>
         auto_replies (snd (telegram_webhook cfg en data s)) = auto_replies s"
  using assms(2) quiet_webhook [OF assms, where c = "msg_chat_id m" and en = en and s = s]
  by (simp add: handle_auto_reply_def quiet_def)

theorem operator_never_welcomed_witness:
  "upd_message \<lparr>upd_message = Some (private_text 900 (u ''Op'') (u ''hi''))\<rparr>
     = Some (private_text 900 (u ''Op'') (u ''hi'')) \<and>
   str_int (msg_chat_id (private_text 900 (u ''Op'') (u ''hi''))) = FORWARD_TO_ID cfg0 \<and>
   fst (should_send_auto_reply cfg0 env_up (u ''900'') world0) \<and>
   welcomes cfg0 900
     (snd (telegram_webhook cfg0 env_up
        \<lparr>upd_message = Some (private_text 900 (u ''Op'') (u ''hi''))\<rparr> world0)) = [] \<and>
   auto_replies
     (snd (telegram_webhook cfg0 env_up
        \<lparr>upd_message = Some (private_text 900 (u ''Op'') (u ''hi''))\<rparr> world0)) = Map.empty"
proof -
  let ?m = "private_text 900 (u ''Op'') (u ''hi'')"
  have h1: "upd_message \<lparr>upd_message = Some ?m\<rparr> = Some ?m" by simp
  have h2: "str_int (msg_chat_id ?m) = FORWARD_TO_ID cfg0"
    by (simp add: private_text_def cfg0_def str_evals)
  have g: "fst (should_send_auto_reply cfg0 env_up (u ''900'') world0)"
    by (simp add: should_send_auto_reply_def world0_def)
  have c: "msg_chat_id ?m = 900"
    by (simp add: private_text_def)
  show ?thesis
    using h1 h2 g operator_never_welcomed [OF h1 h2, of env_up world0 world0]
    by (simp add: c) (simp add: world0_def welcomes_def)
qed

text \<open>
  C1. The failing input: a user whose chat id is 111 and whose display name is \<open>ID:999)\<close>
  sends the private text \<open>hi\<close>. The orchestrator forwards it to the operator with the
  marker \<open>(ID: 111)\<close> behind the display name. The operator replies quoting exactly that
  forwarded text, and the reply is sent to chat 999: the correlator cuts at the first
  \<open>ID:\<close>, which is the one in the display name, so the marker is not read back.
\<close>

theorem spoofed_name_misroutes:
  "forward_text (u ''ID:999)'') 111 (u ''hi'') = spoof_forward \<and>
   trace (snd (telegram_webhook cfg0 env_up spoof_update world0)) =
     [Log DEBUG ''Webhook received data'',
      Telegram (SendMessage (PStr (u ''900'')) (PStr spoof_forward)) True,
      Emit (New_message (PInt 111) (u ''ID:999)'') (PStr (u ''hi'')) (format_datetime 1000))
        AllSessions,
      Telegram (SendMessage (PInt 111) (PStr (u ''Welcome!''))) True,
      Emit (New_message (PStr (u ''42:abc'')) (u ''Bot'') (PStr (u ''Welcome!''))
             (format_datetime 1002)) AllSessions,
      Log INFO ''Sent auto-reply to user''] \<and>
   extract_target_user_id spoof_forward = Inr (u ''999'') \<and>
   str_int 111 = u ''111'' \<and>
   fst (telegram_webhook cfg0 env_up spoof_reply
          (snd (telegram_webhook cfg0 env_up spoof_update world0))) = StatusOk \<and>
   trace (snd (telegram_webhook cfg0 env_up spoof_reply
                 (snd (telegram_webhook cfg0 env_up spoof_update world0)))) =
     trace (snd (telegram_webhook cfg0 env_up spoof_update world0)) @
     [Log DEBUG ''Webhook received data'',
      Log DEBUG ''Handling customer service reply'',
      Log INFO ''Identified target user ID'',
      Telegram (SendMessage (PStr (u ''999'')) (PStr (u ''ok''))) True,
      Emit (New_message (PStr (u ''900'')) (u ''You'') (PStr (u ''ok'')) (format_datetime 1003))
        AllSessions,
      Log INFO ''Successfully handled customer service reply to user'']"
proof -
  have f: "forward_text (u ''ID:999)'') 111 (u ''hi'') = spoof_forward"
    by (simp add: forward_text_def spoof_forward_def str_int_111) (simp add: u_def)
  have x: "extract_target_user_id spoof_forward = Inr (u ''999'')"
    by (simp add: spoof_forward_def str_evals)
  have c: "contains ID_token spoof_forward"
    by (simp add: spoof_forward_def str_evals)
  have o: "str_int 900 = u ''900''"
    by (simp add: str_evals)
  have s1: "telegram_webhook cfg0 env_up spoof_update world0 =
      (StatusOk,
       \<lparr>messages =
          [\<lparr>m_id = 1, m_sender_id = PStr (u ''111''), m_sender_name = u ''ID:999)'',
            m_text = PStr (u ''hi''), m_timestamp = 1000, m_media_type = None,
            m_media_url = None\<rparr>,
           bot_row cfg0 2 1002],
        auto_replies = [u ''111'' \<mapsto> Some 1001],
        trace =
          [Log DEBUG ''Webhook received data'',
           Telegram (SendMessage (PStr (u ''900'')) (PStr spoof_forward)) True,
           Emit (New_message (PInt 111) (u ''ID:999)'') (PStr (u ''hi'')) (format_datetime 1000))
             AllSessions,
           Telegram (SendMessage (PInt 111) (PStr (u ''Welcome!''))) True,
           Emit (New_message (PStr (u ''42:abc'')) (u ''Bot'') (PStr (u ''Welcome!''))
                  (format_datetime 1002)) AllSessions,
           Log INFO ''Sent auto-reply to user''],
        clock_reads = 3\<rparr>)"
    by (simp add: telegram_webhook_def spoof_update_def private_text_def cfg0_def env_up_def
          world0_def handle_text_message_def handle_auto_reply_def should_send_auto_reply_def
          auto_reply_body_def update_auto_reply_record_def io_defs Let_def get_or_def
          bot_row_def str_int_111 f numeral_2_eq_2 numeral_3_eq_3)
       (simp add: u_def)
  show ?thesis
    unfolding s1 snd_conv
    using f x c o
    by (simp add: str_int_111 telegram_webhook_def spoof_reply_def operator_reply_def
          private_text_def quoting_def original_text_of_def get_or_def cfg0_def env_up_def
          handle_customer_service_reply_def reply_body_def reply_text_def io_defs Let_def
          numeral_3_eq_3)
qed

text \<open>
  C2. The failing input: user 111 sends a private text while the request that forwards it
  to the operator fails. The exception of \<open>send_message_to_telegram\<close> leaves
  \<open>handle_text_message\<close> and the webhook: the request is answered with an error, not with
  the acknowledgement, after the message has been stored.
\<close>

theorem text_relay_crash:
  "telegram_webhook cfg0 env_down alice_update world0 =
     (Unhandled ChannelError,
      world0\<lparr>messages := [alice_row 1 1000],
             trace := [Log DEBUG ''Webhook received data'',
                       Telegram (SendMessage (PStr (u ''900'')) (PStr alice_forward)) False,
                       Log ERROR ''Error sending message to Telegram''],
             clock_reads := 1\<rparr>)"
  by (simp add: telegram_webhook_def alice_update_def private_text_def cfg0_def env_down_def
        env_up_def world0_def handle_text_message_def io_defs Let_def get_or_def alice_row_def
        str_int_111 alice_forward_eq)

text \<open>
  C6. Alice (chat id 111, not the operator) sends the private text \<open>hi\<close>, and every
  request and commit succeeds: the webhook acknowledges, the next row of the store is
  Alice's message, and the operator is sent the forwarded text, whose fixed parts are the
  source's literals. If Alice has no auto-reply record she is also sent the welcome
  message, her record is written and a second row, authored by the bot, is stored.
\<close>

theorem alice_end_to_end:
  assumes "\<forall>rq. tg_ok en rq" and "\<forall>w. commit_ok en w"
    and "FORWARD_TO_ID cfg \<noteq> u ''111''"
  shows "fst (telegram_webhook cfg en alice_update s) = StatusOk \<and>
         messages (snd (telegram_webhook cfg en alice_update s)) ! length (messages s) =
           alice_row (Suc (length (messages s))) (clock en (clock_reads s)) \<and>
         Telegram (SendMessage (PStr (FORWARD_TO_ID cfg)) (PStr alice_forward)) True
           \<in> set (trace (snd (telegram_webhook cfg en alice_update s))) \<and>
         (auto_replies s (u ''111'') = None \<longrightarrow>
            telegram_webhook cfg en alice_update s =
              (StatusOk,
               s\<lparr>messages := messages s @
                    [alice_row (Suc (length (messages s))) (clock en (clock_reads s)),
                     bot_row cfg (Suc (Suc (length (messages s))))
                       (clock en (Suc (Suc (clock_reads s))))],
                  auto_replies := (auto_replies s)(u ''111'' \<mapsto> Some (clock en (Suc (clock_reads s)))),
                  trace := trace s @
                    [Log DEBUG ''Webhook received data'',
                     Telegram (SendMessage (PStr (FORWARD_TO_ID cfg)) (PStr alice_forward)) True,
                     Emit (New_message (PInt 111) (u ''Alice'') (PStr (u ''hi''))
                            (format_datetime (clock en (clock_reads s)))) AllSessions,
                     Telegram (SendMessage (PInt 111) (PStr (WELCOME_MESSAGE cfg))) True,
                     Emit (New_message (PStr (BOT_TOKEN cfg)) (u ''Bot'')
                            (PStr (WELCOME_MESSAGE cfg))
                            (format_datetime (clock en (Suc (Suc (clock_reads s)))))) AllSessions,
                     Log INFO ''Sent auto-reply to user''],
                  clock_reads := Suc (Suc (Suc (clock_reads s)))\<rparr>))"
proof -
  let ?s0 = "s\<lparr>trace := trace s @ [Log DEBUG ''Webhook received data'']\<rparr>"
  let ?s1 = "snd (handle_text_message cfg en 111 (u ''Alice'') (u ''hi'') ?s0)"
  note step = alice_text_step [OF assms(1,2), of cfg ?s0]
  have neq: "str_int 111 \<noteq> FORWARD_TO_ID cfg"
    using assms(3) by (simp add: str_int_111)
  have w: "telegram_webhook cfg en alice_update s = (StatusOk, handle_auto_reply cfg en 111 ?s1)"
    using neq step
    by (simp add: telegram_webhook_def alice_update_def private_text_def get_or_def Let_def
          logging_def perform_def)
  have m1: "messages ?s1 =
              messages s @ [alice_row (Suc (length (messages s))) (clock en (clock_reads s))]"
    by (simp add: step)
  have t1: "Telegram (SendMessage (PStr (FORWARD_TO_ID cfg)) (PStr alice_forward)) True
              \<in> set (trace ?s1)"
    by (simp add: step)
  obtain ms tr where
    ms: "messages (handle_auto_reply cfg en 111 ?s1) = messages ?s1 @ ms" and
    tr: "trace (handle_auto_reply cfg en 111 ?s1) = trace ?s1 @ tr"
    using auto_reply_grows [OF assms(1,2), of cfg 111 ?s1] by blast
  have a: "fst (telegram_webhook cfg en alice_update s) = StatusOk"
    by (simp add: w)
  have b: "messages (snd (telegram_webhook cfg en alice_update s)) ! length (messages s) =
             alice_row (Suc (length (messages s))) (clock en (clock_reads s))"
    unfolding w snd_conv ms m1 by (simp add: nth_append)
  have c: "Telegram (SendMessage (PStr (FORWARD_TO_ID cfg)) (PStr alice_forward)) True
             \<in> set (trace (snd (telegram_webhook cfg en alice_update s)))"
    unfolding w snd_conv tr using t1 by simp
  have e: "auto_replies s (u ''111'') = None \<Longrightarrow> auto_replies ?s1 (str_int 111) = None"
    by (simp add: step str_int_111)
  have f: "auto_replies s (u ''111'') = None \<Longrightarrow>
           telegram_webhook cfg en alice_update s =
              (StatusOk,
               s\<lparr>messages := messages s @
                    [alice_row (Suc (length (messages s))) (clock en (clock_reads s)),
                     bot_row cfg (Suc (Suc (length (messages s))))
                       (clock en (Suc (Suc (clock_reads s))))],
                  auto_replies := (auto_replies s)(u ''111'' \<mapsto> Some (clock en (Suc (clock_reads s)))),
                  trace := trace s @
                    [Log DEBUG ''Webhook received data'',
                     Telegram (SendMessage (PStr (FORWARD_TO_ID cfg)) (PStr alice_forward)) True,
                     Emit (New_message (PInt 111) (u ''Alice'') (PStr (u ''hi''))
                            (format_datetime (clock en (clock_reads s)))) AllSessions,
                     Telegram (SendMessage (PInt 111) (PStr (WELCOME_MESSAGE cfg))) True,
                     Emit (New_message (PStr (BOT_TOKEN cfg)) (u ''Bot'')
                            (PStr (WELCOME_MESSAGE cfg))
                            (format_datetime (clock en (Suc (Suc (clock_reads s)))))) AllSessions,
                     Log INFO ''Sent auto-reply to user''],
                  clock_reads := Suc (Suc (Suc (clock_reads s)))\<rparr>)"
  proof -
    assume n: "auto_replies s (u ''111'') = None"
    show ?thesis
      unfolding w new_user_welcome [OF assms(1,2) neq e [OF n]]
      by (simp add: step str_int_111)
  qed
  show ?thesis
    using a b c f by blast
qed

theorem alice_end_to_end_witness:
  "(\<forall>rq. tg_ok env_up rq) \<and> (\<forall>w. commit_ok env_up w) \<and> FORWARD_TO_ID cfg0 \<noteq> u ''111'' \<and>
   auto_replies world0 (u ''111'') = None \<and>
   telegram_webhook cfg0 env_up alice_update world0 =
     (StatusOk,
      world0\<lparr>messages := [alice_row 1 1000, bot_row cfg0 2 1002],
             auto_replies := [u ''111'' \<mapsto> Some 1001],
             trace :=
               [Log DEBUG ''Webhook received data'',
                Telegram (SendMessage (PStr (u ''900'')) (PStr alice_forward)) True,
                Emit (New_message (PInt 111) (u ''Alice'') (PStr (u ''hi''))
                       (format_datetime 1000)) AllSessions,
                Telegram (SendMessage (PInt 111) (PStr (u ''Welcome!''))) True,
                Emit (New_message (PStr (u ''42:abc'')) (u ''Bot'') (PStr (u ''Welcome!''))
                       (format_datetime 1002)) AllSessions,
                Log INFO ''Sent auto-reply to user''],
             clock_reads := 3\<rparr>)"
proof -
  have h1: "\<forall>rq. tg_ok env_up rq" and h2: "\<forall>w. commit_ok env_up w"
    by (simp_all add: env_up_def)
  have h3: "FORWARD_TO_ID cfg0 \<noteq> u ''111''"
    by (simp add: cfg0_def u_def)
  have h4: "auto_replies world0 (u ''111'') = None"
    by (simp add: world0_def)
  show ?thesis
    using h1 h2 h3 h4 alice_end_to_end [OF h1 h2 h3, of world0]
    by (simp add: world0_def cfg0_def env_up_def numeral_2_eq_2 numeral_3_eq_3)
qed

text \<open>
  In the sample deployment the operator is never sent the text
  \<open>User Alice (ID: 111) says:\<close>, newline, \<open>hi\<close>.
\<close>

theorem alice_end_to_end_counterexample:
  "Telegram (SendMessage (PStr (FORWARD_TO_ID cfg0))
      (PStr (u ''User Alice (ID: 111) says:'' @ [10] @ u ''hi''))) True
     \<notin> set (trace (snd (telegram_webhook cfg0 env_up alice_update world0)))"
  by (simp add: telegram_webhook_def alice_update_def private_text_def cfg0_def
        env_up_def world0_def handle_text_message_def handle_auto_reply_def
        should_send_auto_reply_def auto_reply_body_def update_auto_reply_record_def
        io_defs Let_def get_or_def str_int_111 alice_forward_eq)
     (simp add: alice_forward_def u_def)

text \<open>
  C7. When the timestamps of the stored messages strictly increase in the order of
  insertion, the query with limit \<open>k\<close> returns the last \<open>k\<close> messages inserted (all of
  them when there are fewer), oldest first; the page load is that query with the fixed
  limit 5000, so it never returns more than 5000 messages.
\<close>

theorem recent_window:
  assumes "sorted_wrt (<) (map m_timestamp (messages s))"
  shows "recent_messages k (messages s) = drop (length (messages s) - k) (messages s) \<and>
         home cfg (SECURE_TOKEN cfg) s =
           Inr (drop (length (messages s) - 5000) (messages s)) \<and>
         length (recent_messages 5000 (messages s)) \<le> 5000"
  using order_by_timestamp_desc_rev [OF assms]
  by (simp add: recent_messages_def home_def take_rev)

theorem recent_window_witness:
  "sorted_wrt (<) (map m_timestamp (messages (world0\<lparr>messages := [row 1 10, row 2 20, row 3 30]\<rparr>))) \<and>
   recent_messages 2 [row 1 10, row 2 20, row 3 30] = [row 2 20, row 3 30] \<and>
   home cfg0 (PStr (u ''s3cret'')) (world0\<lparr>messages := [row 1 10, row 2 20, row 3 30]\<rparr>) =
     Inr [row 1 10, row 2 20, row 3 30]"
proof -
  let ?w = "world0\<lparr>messages := [row 1 10, row 2 20, row 3 30]\<rparr>"
  have h: "sorted_wrt (<) (map m_timestamp (messages ?w))"
    by (simp add: row_def)
  show ?thesis
    using h recent_window [OF h, of 2 cfg0]
    by (simp add: cfg0_def)
qed

text \<open>
  The clock steps back between two messages of the operator: the first is stored with
  timestamp 5, the second with timestamp 3. The query with limit 1 returns the first
  message stored, not the one appended last.
\<close>

theorem recent_window_counterexample:
  "messages (snd (telegram_webhook cfg0 env_backstep operator_note
      (snd (telegram_webhook cfg0 env_backstep operator_note world0)))) = [row 1 5, row 2 3] \<and>
   recent_messages 1 [row 1 5, row 2 3] = [row 1 5] \<and>
   drop (length [row 1 5, row 2 3] - 1) [row 1 5, row 2 3] = [row 2 3]"
  by (simp add: telegram_webhook_def operator_note_def private_text_def cfg0_def
        env_backstep_def env_up_def world0_def handle_text_message_def handle_auto_reply_def
        io_defs Let_def get_or_def row_def recent_messages_def order_by_timestamp_desc_def
        str_evals)

end
